theory Spec2Isabelle
  imports Complex_Main
begin

section \<open>Python values and exceptions\<close>

text \<open>
  Exceptions that can leave the methods of \<open>Opendap\<close>.  \<open>CredentialsError\<close> is the
  class of the module (fields \<open>username\<close>, \<open>password\<close>, \<open>message\<close>); the others
  are raised by the interpreter or by the array and protocol libraries.
  A Python value that may be \<open>None\<close> is an \<open>option\<close>.
\<close>

datatype exn =
    CredentialsError "string option" "string option" string
  | AttributeError
  | TypeError
  | KeyError
  | ValueError
  | OverflowError
  | EOFError
  | InvalidIndexError
  | RemoteError

datatype 'a selector = Slice 'a 'a | Point 'a

section \<open>Labelled arrays\<close>

text \<open>
  A coordinate is either a dimension coordinate (a one-dimensional array of labels) or,
  after a single-value selection, a scalar.  Timestamps are \<open>datetime64[ns]\<close>:
  64-bit integers counting nanoseconds since the epoch, kept as integers with the
  wrap-around written out where the code computes with them.  The other coordinates are
  floats: their type \<open>'f\<close> is left open, and all that is used of it is its
  subtraction, its addition, its absolute value and its order (a float array without
  NaN), so that nothing below rests on exact arithmetic.  A data variable names its
  dimensions and maps an index vector (one position per dimension) to a value.
\<close>

datatype 'a coord = Dim "'a list" | Scalar 'a

record 'v variable =
  vdims :: "string list"
  vdata :: "nat list \<Rightarrow> 'v"

record ('f, 'v) dataset =
  time_coord :: "int coord option"
  num_coords :: "string \<Rightarrow> 'f coord option"
  data_vars :: "(string \<times> 'v variable) list"

definition index_of :: "'a \<Rightarrow> 'a list \<Rightarrow> nat" where
  "index_of x xs = length (takeWhile (\<lambda>y. y \<noteq> x) xs)"

definition isel_var :: "string \<Rightarrow> nat list \<Rightarrow> 'v variable \<Rightarrow> 'v variable" where
  "isel_var d idx v =
     (if d \<in> set (vdims v)
      then v\<lparr>vdata := (\<lambda>ix. vdata v (ix[index_of d (vdims v) := idx ! (ix ! index_of d (vdims v))]))\<rparr>
      else v)"

definition pick_var :: "string \<Rightarrow> nat \<Rightarrow> 'v variable \<Rightarrow> 'v variable" where
  "pick_var d i v =
     (if d \<in> set (vdims v)
      then v\<lparr>vdims := remove1 d (vdims v),
             vdata := (\<lambda>ix. vdata v (take (index_of d (vdims v)) ix @ i # drop (index_of d (vdims v)) ix))\<rparr>
      else v)"

definition map_vars :: "('v variable \<Rightarrow> 'v variable) \<Rightarrow> ('f, 'v) dataset \<Rightarrow> (string \<times> 'v variable) list" where
  "map_vars f d = map (\<lambda>nv. (fst nv, f (snd nv))) (data_vars d)"

text \<open>\<open>Dataset.isel(time=idx)\<close> with an integer array: positional selection.\<close>

definition isel_time :: "nat list \<Rightarrow> int list \<Rightarrow> ('f, 'v) dataset \<Rightarrow> ('f, 'v) dataset" where
  "isel_time idx ts d =
     d\<lparr>time_coord := Some (Dim (map (\<lambda>i. ts ! i) idx)),
       data_vars := map_vars (isel_var ''time'' idx) d\<rparr>"

definition isel_num :: "string \<Rightarrow> nat list \<Rightarrow> 'f list \<Rightarrow> ('f, 'v) dataset \<Rightarrow> ('f, 'v) dataset" where
  "isel_num name idx xs d =
     d\<lparr>num_coords := (num_coords d)(name := Some (Dim (map (\<lambda>i. xs ! i) idx))),
       data_vars := map_vars (isel_var name idx) d\<rparr>"

section \<open>Repeated timestamps\<close>

text \<open>
  The least 64-bit value of a timestamp is NaT, \<open>not a time\<close>.  In the order in
  which numpy sorts timestamps, NaT comes after every time.
\<close>

definition NaT :: int where
  "NaT = - 9223372036854775808"

definition wrap64 :: "int \<Rightarrow> int" where
  "wrap64 x = (x + 9223372036854775808) mod 18446744073709551616 - 9223372036854775808"


text \<open>
  \<open>np.unique(a, return_index=True)\<close>: the sorted distinct values of \<open>a\<close> and, for
  each, the index of its first occurrence in \<open>a\<close>.  On timestamps NaT is kept once
  and last.
\<close>

definition np_unique :: "'a::linorder list \<Rightarrow> 'a list" where
  "np_unique xs = sort (remdups xs)"

definition np_unique_datetime :: "int list \<Rightarrow> int list" where
  "np_unique_datetime ts =
     sort (remdups (filter (\<lambda>t. t \<noteq> NaT) ts)) @ (if NaT \<in> set ts then [NaT] else [])"

definition np_unique_index :: "int list \<Rightarrow> nat list" where
  "np_unique_index ts = map (\<lambda>v. index_of v ts) (np_unique_datetime ts)"

definition esc :: char where
  "esc = CHR 0x1B"

definition nl :: char where
  "nl = CHR 0x0A"

definition quote :: char where
  "quote = CHR 0x27"

definition repeated_times_message :: string where
  "repeated_times_message =
     [nl, esc] @ ''[1;31mRepeated times founded! --> report to CMEMS - Elena: '' @ [quote] @
     ''edimedio@mercator-ocean.eu'' @ [quote, esc] @ ''[0;0m'' @ [nl]"

text \<open>
  Lines 105 to 110 of \<open>__init__\<close>.  \<open>self.ds.time\<close> is an attribute lookup and
  \<open>len\<close> of a scalar coordinate is a type error.  The result is the new handle and the
  lines printed.
\<close>

definition drop_repeated_times :: "('f, 'v) dataset \<Rightarrow> exn + (('f, 'v) dataset \<times> string list)" where
  "drop_repeated_times d =
     (case time_coord d of
        None \<Rightarrow> Inl AttributeError
      | Some (Scalar t) \<Rightarrow> Inl TypeError
      | Some (Dim ts) \<Rightarrow>
          if length (np_unique_datetime ts) \<noteq> length ts
          then Inr (isel_time (np_unique_index ts) ts d, [repeated_times_message])
          else Inr (d, []))"

section \<open>Subsetting\<close>

definition and_then :: "exn + 'a \<Rightarrow> ('a \<Rightarrow> exn + 'b) \<Rightarrow> exn + 'b" where
  "and_then r f = (case r of Inl e \<Rightarrow> Inl e | Inr x \<Rightarrow> f x)"

text \<open>
  \<open>np.diff(a)\<close> is the list of differences of neighbours; \<open>.max()\<close> of an empty
  array raises ValueError.
\<close>

definition np_diff :: "'a::minus list \<Rightarrow> 'a list" where
  "np_diff xs = map (\<lambda>p. snd p - fst p) (zip xs (tl xs))"

definition np_max :: "'a::linorder list \<Rightarrow> exn + 'a" where
  "np_max xs = (case xs of [] \<Rightarrow> Inl ValueError | x # r \<Rightarrow> Inr (fold max r x))"

text \<open>
  On timestamps the difference is a \<open>timedelta64[ns]\<close>: it is taken in 64 bits and
  wraps, a difference with NaT is NaT, and \<open>.max()\<close> hands NaT on.
\<close>

definition timedelta_between :: "int \<Rightarrow> int \<Rightarrow> int" where
  "timedelta_between a b = (if a = NaT \<or> b = NaT then NaT else wrap64 (b - a))"

definition np_diff_datetime :: "int list \<Rightarrow> int list" where
  "np_diff_datetime ts = map (\<lambda>p. timedelta_between (fst p) (snd p)) (zip ts (tl ts))"

definition np_max_timedelta :: "int list \<Rightarrow> exn + int" where
  "np_max_timedelta deltas =
     (case deltas of
        [] \<Rightarrow> Inl ValueError
      | x # r \<Rightarrow> Inr (if NaT \<in> set deltas then NaT else fold max r x))"

text \<open>
  \<open>.astype("timedelta64[s]")\<close> on a nanosecond difference divides by \<open>10^9\<close>, rounding
  down; \<open>.item()\<close> makes it a \<open>timedelta\<close> of that many seconds, here again in
  nanoseconds, and makes \<open>None\<close> of NaT.
\<close>

definition whole_seconds :: "int \<Rightarrow> int" where
  "whole_seconds d = (d div 1000000000) * 1000000000"

definition item :: "int \<Rightarrow> int option" where
  "item d = (if d = NaT then None else Some (whole_seconds d))"

text \<open>
  The bounds of a time range are \<open>datetime\<close> objects, kept as nanoseconds since the
  epoch.  Adding a \<open>timedelta\<close> to one raises OverflowError when the result leaves
  the years 1 to 9999, and adding \<open>None\<close> is a TypeError.
\<close>

definition datetime_min :: int where
  "datetime_min = - 62135596800000000000"

definition datetime_max :: int where
  "datetime_max = 253402300799999999000"

definition is_datetime :: "int \<Rightarrow> bool" where
  "is_datetime t = (datetime_min \<le> t \<and> t \<le> datetime_max)"

definition datetime_plus :: "int \<Rightarrow> int option \<Rightarrow> exn + int" where
  "datetime_plus t delta =
     (case delta of
        None \<Rightarrow> Inl TypeError
      | Some dt \<Rightarrow> if is_datetime (t + dt) then Inr (t + dt) else Inl OverflowError)"

text \<open>
  \<open>np.diff(self.ds[name].values).max()\<close>: a missing name is a KeyError, and
  \<open>np.diff\<close> refuses a zero-dimensional array.
\<close>

definition max_spacing :: "'a::{linorder, minus} coord option \<Rightarrow> exn + 'a" where
  "max_spacing c =
     (case c of
        None \<Rightarrow> Inl KeyError
      | Some (Scalar x) \<Rightarrow> Inl ValueError
      | Some (Dim xs) \<Rightarrow> np_max (np_diff xs))"

definition max_time_spacing :: "int coord option \<Rightarrow> exn + int" where
  "max_time_spacing c =
     (case c of
        None \<Rightarrow> Inl KeyError
      | Some (Scalar x) \<Rightarrow> Inl ValueError
      | Some (Dim ts) \<Rightarrow> np_max_timedelta (np_diff_datetime ts))"

definition expand_times :: "int selector option \<Rightarrow> ('f, 'v) dataset \<Rightarrow> exn + int selector option" where
  "expand_times timesel d =
     (case timesel of
        Some (Slice start stop) \<Rightarrow>
          and_then (max_time_spacing (time_coord d)) (\<lambda>dt.
          and_then (datetime_plus start (map_option uminus (item dt))) (\<lambda>lo.
          and_then (datetime_plus stop (item dt)) (\<lambda>hi.
            Inr (Some (Slice lo hi)))))
      | _ \<Rightarrow> Inr timesel)"

definition expand_floats :: "string \<Rightarrow> 'f::{linorder, minus, plus} selector option \<Rightarrow> ('f, 'v) dataset \<Rightarrow> exn + 'f selector option" where
  "expand_floats name sel d =
     (case sel of
        Some (Slice start stop) \<Rightarrow>
          and_then (max_spacing (num_coords d name)) (\<lambda>dx.
            Inr (Some (Slice (start - dx) (stop + dx))))
      | _ \<Rightarrow> Inr sel)"

text \<open>
  Lines 133 to 160 of \<open>crop\<close>: the values of the local variables \<open>times\<close>,
  \<open>longitudes\<close>, \<open>latitudes\<close> and \<open>depths\<close> when the selection starts.  There
  is no branch for \<open>depths\<close>.
\<close>

definition nearest_outside ::
  "string \<Rightarrow> int selector option \<Rightarrow> 'f::{linorder, minus, plus} selector option \<Rightarrow> 'f selector option \<Rightarrow>
   'f selector option \<Rightarrow> ('f, 'v) dataset \<Rightarrow>
   exn + (int selector option \<times> 'f selector option \<times> 'f selector option \<times> 'f selector option)" where
  "nearest_outside method timesel longitudes latitudes depths d =
     (if method = ''neareast_outside''
      then and_then (expand_times timesel d) (\<lambda>t.
           and_then (expand_floats ''longitude'' longitudes d) (\<lambda>x.
           and_then (expand_floats ''latitude'' latitudes d) (\<lambda>y.
           Inr (t, x, y, depths))))
      else Inr (timesel, longitudes, latitudes, depths))"


text \<open>
  Label lookup of the index library.  A slice on an increasing index selects the
  positions whose label lies within the bounds, both included; on a decreasing index the
  bounds swap roles; on an index that is neither, both bounds must be labels that occur
  exactly once.  A nearest lookup needs an index without repeated labels that is
  monotonic, and breaks ties towards the greater label.
\<close>

definition positions :: "('a \<Rightarrow> bool) \<Rightarrow> 'a list \<Rightarrow> nat list" where
  "positions P xs = filter (\<lambda>i. P (xs ! i)) [0..<length xs]"

definition slice_positions :: "'a::linorder \<Rightarrow> 'a \<Rightarrow> 'a list \<Rightarrow> exn + nat list" where
  "slice_positions lo hi xs =
     (if sorted xs then Inr (positions (\<lambda>x. lo \<le> x \<and> x \<le> hi) xs)
      else if sorted (rev xs) then Inr (positions (\<lambda>x. hi \<le> x \<and> x \<le> lo) xs)
      else if count_list xs lo = 1 \<and> count_list xs hi = 1
      then Inr [index_of lo xs..<Suc (index_of hi xs)]
      else Inl KeyError)"

definition closer :: "'a::{linorder, minus, abs} \<Rightarrow> 'a \<Rightarrow> 'a \<Rightarrow> 'a" where
  "closer v a b = (if \<bar>b - v\<bar> < \<bar>a - v\<bar> \<or> (\<bar>b - v\<bar> = \<bar>a - v\<bar> \<and> a < b) then b else a)"

definition nearest_position :: "'a::{linorder, minus, abs} \<Rightarrow> 'a list \<Rightarrow> exn + nat" where
  "nearest_position v xs =
     (case xs of
        [] \<Rightarrow> Inl KeyError
      | x # r \<Rightarrow>
          if \<not> distinct xs then Inl InvalidIndexError
          else if sorted xs \<or> sorted (rev xs) then Inr (index_of (fold (closer v) r x) xs)
          else Inl ValueError)"

text \<open>
  Selecting one position removes the dimension: the coordinate becomes a scalar and
  every variable over the dimension loses it.
\<close>

definition pick_time :: "nat \<Rightarrow> int list \<Rightarrow> ('f, 'v) dataset \<Rightarrow> ('f, 'v) dataset" where
  "pick_time i ts d =
     d\<lparr>time_coord := Some (Scalar (ts ! i)), data_vars := map_vars (pick_var ''time'' i) d\<rparr>"

definition pick_num :: "string \<Rightarrow> nat \<Rightarrow> 'f list \<Rightarrow> ('f, 'v) dataset \<Rightarrow> ('f, 'v) dataset" where
  "pick_num name i xs d =
     d\<lparr>num_coords := (num_coords d)(name := Some (Scalar (xs ! i))),
       data_vars := map_vars (pick_var name i) d\<rparr>"

text \<open>
  \<open>Dataset.sel(time=...)\<close> and \<open>Dataset.sel(name=...)\<close>, the latter with
  \<open>method="nearest"\<close> for a single value.  A name that is not a dimension with an
  index is refused.
\<close>

definition sel_time :: "int selector \<Rightarrow> ('f, 'v) dataset \<Rightarrow> exn + ('f, 'v) dataset" where
  "sel_time s d =
     (case time_coord d of
        Some (Dim ts) \<Rightarrow>
          (case s of
             Slice lo hi \<Rightarrow> and_then (slice_positions lo hi ts) (\<lambda>idx. Inr (isel_time idx ts d))
           | Point v \<Rightarrow> and_then (nearest_position v ts) (\<lambda>i. Inr (pick_time i ts d)))
      | _ \<Rightarrow> Inl KeyError)"

definition sel_num :: "string \<Rightarrow> 'f::{linorder, minus, abs} selector \<Rightarrow> ('f, 'v) dataset \<Rightarrow> exn + ('f, 'v) dataset" where
  "sel_num name s d =
     (case num_coords d name of
        Some (Dim xs) \<Rightarrow>
          (case s of
             Slice lo hi \<Rightarrow> and_then (slice_positions lo hi xs) (\<lambda>idx. Inr (isel_num name idx xs d))
           | Point v \<Rightarrow> and_then (nearest_position v xs) (\<lambda>i. Inr (pick_num name i xs d)))
      | _ \<Rightarrow> Inl KeyError)"

definition sel_opt :: "('s \<Rightarrow> ('f, 'v) dataset \<Rightarrow> exn + ('f, 'v) dataset) \<Rightarrow> 's option \<Rightarrow> ('f, 'v) dataset \<Rightarrow> exn + ('f, 'v) dataset" where
  "sel_opt f s d = (case s of None \<Rightarrow> Inr d | Some v \<Rightarrow> f v d)"

text \<open>Lines 162 to 185 of \<open>crop\<close>.  The last two calls name the dimension \<open>detph\<close>.\<close>

definition select_coordinates ::
  "int selector option \<Rightarrow> 'f::{linorder, minus, abs} selector option \<Rightarrow> 'f selector option \<Rightarrow> 'f selector option \<Rightarrow>
   ('f, 'v) dataset \<Rightarrow> exn + ('f, 'v) dataset" where
  "select_coordinates timesel longitudes latitudes depths d =
     and_then (sel_opt sel_time timesel d) (\<lambda>d1.
     and_then (sel_opt (sel_num ''longitude'') longitudes d1) (\<lambda>d2.
     and_then (sel_opt (sel_num ''latitude'') latitudes d2) (\<lambda>d3.
     sel_opt (sel_num ''detph'') depths d3)))"

text \<open>
  \<open>Dataset.get(names)\<close> is the mapping method: \<open>self[names]\<close>, and \<open>None\<close> when that
  raises KeyError.  \<open>self[names]\<close> keeps the listed variables in the order asked, and
  the coordinates whose dimensions are still in use.  The names are those of variables
  and coordinates; a dotted name such as \<open>time.year\<close>, from which the library derives
  a variable of its own, is not a name of the handle here.
\<close>

definition has_name :: "('f, 'v) dataset \<Rightarrow> string \<Rightarrow> bool" where
  "has_name d n =
     (map_of (data_vars d) n \<noteq> None \<or>
      (if n = ''time'' then time_coord d \<noteq> None else num_coords d n \<noteq> None))"

definition first_occurrences :: "'a list \<Rightarrow> 'a list" where
  "first_occurrences xs = rev (remdups (rev xs))"

definition listed_vars :: "string list \<Rightarrow> ('f, 'v) dataset \<Rightarrow> (string \<times> 'v variable) list" where
  "listed_vars names d =
     concat (map (\<lambda>n. case map_of (data_vars d) n of None \<Rightarrow> [] | Some v \<Rightarrow> [(n, v)])
                 (first_occurrences names))"

definition needed_dims :: "string list \<Rightarrow> ('f, 'v) dataset \<Rightarrow> string list" where
  "needed_dims names d =
     concat (map (\<lambda>nv. vdims (snd nv)) (listed_vars names d)) @
     filter (\<lambda>n. map_of (data_vars d) n = None) names"

definition keep_coord :: "bool \<Rightarrow> 'a coord option \<Rightarrow> 'a coord option" where
  "keep_coord needed c =
     (case c of Some (Dim xs) \<Rightarrow> if needed then Some (Dim xs) else None | _ \<Rightarrow> c)"

definition copy_listed :: "string list \<Rightarrow> ('f, 'v) dataset \<Rightarrow> ('f, 'v) dataset" where
  "copy_listed names d =
     \<lparr>time_coord = keep_coord (''time'' \<in> set (needed_dims names d)) (time_coord d),
      num_coords = (\<lambda>k. keep_coord (k \<in> set (needed_dims names d)) (num_coords d k)),
      data_vars = listed_vars names d\<rparr>"

definition ds_get :: "string list \<Rightarrow> ('f, 'v) dataset \<Rightarrow> ('f, 'v) dataset option" where
  "ds_get names d = (if list_all (has_name d) names then Some (copy_listed names d) else None)"

section \<open>The session object\<close>

text \<open>
  The fields of an \<open>Opendap\<close> object, with what it has printed.  \<open>ds\<close> can come to
  hold \<open>None\<close>.  \<open>loaded\<close> tells whether the values of the handle are in memory;
  it is not part of the handle's value.
\<close>

record ('f, 'v) opendap =
  username :: "string option"
  password :: "string option"
  dataset_id :: string
  ds :: "('f, 'v) dataset option"
  loaded :: bool
  stdout :: "string list"

text \<open>
  What the object reaches outside the module: the terminal (a prompt that gets no answer
  raises EOFError), the login service, the data service, the transfer of the values of
  a handle (\<open>load_ok\<close>: the request is within what the service allows), and the file
  system.
\<close>

record ('f, 'v) world =
  input_reply :: "string option"
  getpass_reply :: "string \<Rightarrow> string option"
  setup_session :: "string \<Rightarrow> string option \<Rightarrow> string option \<Rightarrow> (string \<Rightarrow> string option) option"
  open_url :: "string \<Rightarrow> (string \<Rightarrow> string option) \<Rightarrow> ('f, 'v) dataset option"
  load_ok :: "('f, 'v) dataset \<Rightarrow> bool"
  abspath :: "string \<Rightarrow> string"
  write_ok :: "string \<Rightarrow> string option \<Rightarrow> ('f, 'v) dataset \<Rightarrow> bool"

definition too_big_message :: string where
  "too_big_message = [nl, esc] @ ''[1;33mToo big to be loaded in one request!'' @ [esc] @ ''[0;0m'' @ [nl]"

text \<open>
  Lines 133 to 189 of \<open>crop\<close>: the handle after the selection of coordinates and
  variables.  When \<open>self.ds\<close> is \<open>None\<close>, subscripting it is a TypeError and calling a
  method on it an AttributeError.
\<close>

definition is_slice :: "'a selector option \<Rightarrow> bool" where
  "is_slice s = (case s of Some (Slice a b) \<Rightarrow> True | _ \<Rightarrow> False)"

definition crop_selection ::
  "string list option \<Rightarrow> int selector option \<Rightarrow> 'f::{linorder, minus, plus, abs} selector option \<Rightarrow> 'f selector option \<Rightarrow>
   'f selector option \<Rightarrow> string \<Rightarrow> ('f, 'v) dataset option \<Rightarrow> exn + ('f, 'v) dataset option" where
  "crop_selection variables timesel longitudes latitudes depths method handle =
     (case handle of
        None \<Rightarrow>
          if method = ''neareast_outside'' \<and> (is_slice timesel \<or> is_slice longitudes \<or> is_slice latitudes)
          then Inl TypeError
          else if timesel \<noteq> None \<or> longitudes \<noteq> None \<or> latitudes \<noteq> None \<or> depths \<noteq> None \<or> variables \<noteq> None
          then Inl AttributeError
          else Inr None
      | Some d \<Rightarrow>
          and_then (nearest_outside method timesel longitudes latitudes depths d) (\<lambda>(t, x, y, z).
          and_then (select_coordinates t x y z d) (\<lambda>d'.
          case variables of None \<Rightarrow> Inr (Some d') | Some names \<Rightarrow> Inr (ds_get names d'))))"

text \<open>
  Lines 190 to 193: \<open>load\<close> inside a bare \<open>except\<close>.  Loading a handle whose values
  are in memory transfers nothing.
\<close>

definition try_load :: "('f, 'v) world \<Rightarrow> ('f, 'v) opendap \<Rightarrow> ('f, 'v) opendap" where
  "try_load w st =
     (case ds st of
        None \<Rightarrow> st\<lparr>stdout := stdout st @ [too_big_message]\<rparr>
      | Some d \<Rightarrow>
          if loaded st \<or> load_ok w d then st\<lparr>loaded := True\<rparr>
          else st\<lparr>stdout := stdout st @ [too_big_message]\<rparr>)"

definition crop ::
  "string list option \<Rightarrow> int selector option \<Rightarrow> 'f::{linorder, minus, plus, abs} selector option \<Rightarrow> 'f selector option \<Rightarrow>
   'f selector option \<Rightarrow> string \<Rightarrow> ('f, 'v) world \<Rightarrow> ('f, 'v) opendap \<Rightarrow> exn + ('f, 'v) opendap" where
  "crop variables timesel longitudes latitudes depths method w st =
     and_then (crop_selection variables timesel longitudes latitudes depths method (ds st)) (\<lambda>h.
       Inr (try_load w (st\<lparr>ds := h\<rparr>)))"

section \<open>Export\<close>

text \<open>The functions of \<open>os.path\<close> used, for POSIX paths, and \<open>str.replace("-", "")\<close>.\<close>

definition slash :: char where
  "slash = CHR ''/''"

definition dot :: char where
  "dot = CHR ''.''"

definition rstrip_char :: "char \<Rightarrow> string \<Rightarrow> string" where
  "rstrip_char c p = rev (dropWhile (\<lambda>x. x = c) (rev p))"

definition dirname :: "string \<Rightarrow> string" where
  "dirname p =
     (let head = rev (dropWhile (\<lambda>x. x \<noteq> slash) (rev p))
      in if head \<noteq> [] \<and> \<not> list_all (\<lambda>x. x = slash) head then rstrip_char slash head else head)"

definition basename :: "string \<Rightarrow> string" where
  "basename p = rev (takeWhile (\<lambda>x. x \<noteq> slash) (rev p))"

definition splitext :: "string \<Rightarrow> string \<times> string" where
  "splitext p =
     (let name = basename p;
          ext = rev (takeWhile (\<lambda>x. x \<noteq> dot) (rev name));
          stem = take (length name - length ext - 1) name
      in if dot \<in> set name \<and> \<not> list_all (\<lambda>x. x = dot) stem
         then (take (length p - length ext - 1) p, dot # ext)
         else (p, []))"

definition remove_dashes :: "string \<Rightarrow> string" where
  "remove_dashes s = filter (\<lambda>c. c \<noteq> CHR ''-'') s"

text \<open>
  A calendar date is kept as its day number (days since 1970-01-01), which orders dates
  as the calendar does.  \<open>str\<close> of a date is \<open>YYYY-MM-DD\<close>.
\<close>

definition date_of :: "int \<Rightarrow> int" where
  "date_of t = t div 86400000000000"

definition civil_from_days :: "int \<Rightarrow> int \<times> int \<times> int" where
  "civil_from_days n =
     (let z = n + 719468;
          era = z div 146097;
          doe = z - era * 146097;
          yoe = (doe - doe div 1460 + doe div 36524 - doe div 146096) div 365;
          doy = doe - (365 * yoe + yoe div 4 - yoe div 100);
          mp = (5 * doy + 2) div 153;
          d = doy - (153 * mp + 2) div 5 + 1;
          m = (if mp < 10 then mp + 3 else mp - 9);
          y = yoe + era * 400
      in (if m \<le> 2 then y + 1 else y, m, d))"

definition digit :: "nat \<Rightarrow> char" where
  "digit n = ''0123456789'' ! (n mod 10)"

definition pad2 :: "nat \<Rightarrow> string" where
  "pad2 n = [digit (n div 10), digit n]"

definition pad4 :: "nat \<Rightarrow> string" where
  "pad4 n = [digit (n div 1000), digit (n div 100), digit (n div 10), digit n]"

definition str_date :: "int \<Rightarrow> string" where
  "str_date n =
     (case civil_from_days n of (y, m, d) \<Rightarrow> pad4 (nat y) @ ''-'' @ pad2 (nat m) @ ''-'' @ pad2 (nat d))"

text \<open>
  \<open>self.ds.groupby("time.date")\<close>: one group per distinct date, in ascending order of
  date, each the positions of the time axis that fall on the date.
\<close>

definition groupby_date :: "('f, 'v) dataset \<Rightarrow> exn + (int \<times> ('f, 'v) dataset) list" where
  "groupby_date d =
     (case time_coord d of
        None \<Rightarrow> Inl KeyError
      | Some (Scalar t) \<Rightarrow> Inl ValueError
      | Some (Dim ts) \<Rightarrow>
          Inr (map (\<lambda>g. (g, isel_time (positions (\<lambda>t. date_of t = g) ts) ts d))
                   (np_unique (map date_of ts))))"

text \<open>
  Writing a handle whose values are not in memory fetches them: the write of a dataset
  succeeds when its values are loaded or can be transferred, and the file can be
  written.
\<close>

definition can_write :: "('f, 'v) world \<Rightarrow> bool \<Rightarrow> string \<Rightarrow> string option \<Rightarrow> ('f, 'v) dataset \<Rightarrow> bool" where
  "can_write w in_memory path fmt d = ((in_memory \<or> load_ok w d) \<and> write_ok w path fmt d)"

text \<open>
  \<open>xr.save_mfdataset\<close> refuses two equal paths and then writes the datasets in turn.
  The result is the list of files written, each with its content.
\<close>

fun write_all :: "('f, 'v) world \<Rightarrow> bool \<Rightarrow> string option \<Rightarrow> (string \<times> ('f, 'v) dataset) list \<Rightarrow> exn + (string \<times> ('f, 'v) dataset) list" where
  "write_all w in_memory fmt [] = Inr []"
| "write_all w in_memory fmt (pd # rest) =
     (if can_write w in_memory (fst pd) fmt (snd pd)
      then and_then (write_all w in_memory fmt rest) (\<lambda>fs. Inr (pd # fs))
      else Inl RemoteError)"

definition save_mfdataset ::
  "('f, 'v) world \<Rightarrow> bool \<Rightarrow> ('f, 'v) dataset list \<Rightarrow> string list \<Rightarrow> string option \<Rightarrow> exn + (string \<times> ('f, 'v) dataset) list" where
  "save_mfdataset w in_memory datasets paths fmt =
     (if \<not> distinct paths \<or> length datasets \<noteq> length paths then Inl ValueError
      else write_all w in_memory fmt (zip paths datasets))"

definition daily_paths :: "string \<Rightarrow> int list \<Rightarrow> string list" where
  "daily_paths output_path dates =
     (let output_dir = dirname output_path;
          filename = fst (splitext (basename output_path));
          file_ext = snd (splitext (basename output_path))
      in map (\<lambda>d. remove_dashes (output_dir @ ''/'' @ filename @ ''_'' @ str_date d @ file_ext)) dates)"

text \<open>
  \<open>to_daily_netcdf\<close>.  \<open>zip(*groups)\<close> of no group cannot be unpacked into two names.
  The result is the value returned and the files written.
\<close>

definition to_daily_netcdf ::
  "string \<Rightarrow> string option \<Rightarrow> ('f, 'v) world \<Rightarrow> ('f, 'v) opendap \<Rightarrow> exn + (string list \<times> (string \<times> ('f, 'v) dataset) list)" where
  "to_daily_netcdf output_path netcdf_format w st =
     (case ds st of
        None \<Rightarrow> Inl AttributeError
      | Some d \<Rightarrow>
          and_then (groupby_date d) (\<lambda>groups.
            if groups = [] then Inl ValueError
            else let paths = daily_paths output_path (map fst groups)
                 in and_then (save_mfdataset w (loaded st) (map snd groups) paths netcdf_format) (\<lambda>fs.
                      Inr (paths, fs))))"

text \<open>
  What a call returns to its caller.  \<open>to_netcdf\<close> has no \<open>return\<close> statement: the
  assignment \<open>output_path = paths\<close> is to a local name.
\<close>

datatype returned = ReturnsNone | ReturnsPath string | ReturnsPaths "string list"

definition single_write :: "string \<Rightarrow> string option \<Rightarrow> ('f, 'v) world \<Rightarrow> ('f, 'v) opendap \<Rightarrow> (string \<times> ('f, 'v) dataset) list option" where
  "single_write path netcdf_format w st =
     (case ds st of
        None \<Rightarrow> None
      | Some d \<Rightarrow>
          if can_write w (loaded st) path netcdf_format d then Some [(path, d)] else None)"

definition to_netcdf ::
  "string \<Rightarrow> string option \<Rightarrow> ('f, 'v) world \<Rightarrow> ('f, 'v) opendap \<Rightarrow> exn + (returned \<times> (string \<times> ('f, 'v) dataset) list)" where
  "to_netcdf output_path netcdf_format w st =
     (let path = abspath w output_path
      in case single_write path netcdf_format w st of
           Some fs \<Rightarrow> Inr (ReturnsNone, fs)
         | None \<Rightarrow>
             and_then (to_daily_netcdf path netcdf_format w st) (\<lambda>(paths, fs).
               Inr (ReturnsNone, fs)))"

section \<open>Session establishment\<close>

definition py_str :: "string option \<Rightarrow> string" where
  "py_str v = (case v of None \<Rightarrow> ''None'' | Some s \<Rightarrow> s)"

definition falsy :: "string option \<Rightarrow> bool" where
  "falsy v = (case v of None \<Rightarrow> True | Some s \<Rightarrow> s = [])"

text \<open>
  A character is a code point below 256.  \<open>str.lstrip()\<close> and \<open>str.rstrip()\<close>
  remove the white space among them.
\<close>

definition is_space :: "char \<Rightarrow> bool" where
  "is_space c = (c \<in> set [CHR 0x09, CHR 0x0A, CHR 0x0B, CHR 0x0C, CHR 0x0D,
                           CHR 0x1C, CHR 0x1D, CHR 0x1E, CHR 0x1F, CHR 0x20,
                           CHR 0x85, CHR 0xA0])"

definition lstrip :: "string \<Rightarrow> string" where
  "lstrip s = dropWhile is_space s"

definition rstrip :: "string \<Rightarrow> string" where
  "rstrip s = rev (dropWhile is_space (rev s))"

definition cas_url :: string where
  "cas_url = ''https://cmems-cas.cls.fr/cas/login''"

definition credentials_message :: "string option \<Rightarrow> string" where
  "credentials_message user =
     [nl, esc] @ ''[1;31mUsername ('' @ py_str user @ '') or/and password are incorrect!'' @
     [esc] @ ''[0;0m'' @ [nl]"

definition connected_message :: "string option \<Rightarrow> string option \<Rightarrow> string" where
  "connected_message user dataset =
     [nl, esc] @ ''[1;32m'' @ [quote] @ py_str user @ [quote] @ '' is successfully connected to '' @
     [quote] @ py_str dataset @ [quote, esc] @ ''[0;0m'' @ [nl]"

definition dods_url :: "string \<Rightarrow> string option \<Rightarrow> string" where
  "dods_url database dataset = ''https://'' @ database @ ''.cmems-du.eu/thredds/dodsC/'' @ py_str dataset"

text \<open>
  \<open>_copernicusmarine_datastore\<close>.  The login gives the cookies of the session; the
  token is the cookie \<open>CASTGC\<close>.  The data store of a URL is taken as the dataset that
  \<open>xr.open_dataset\<close> makes of it.
\<close>

definition copernicusmarine_datastore ::
  "('f, 'v) world \<Rightarrow> string option \<Rightarrow> string option \<Rightarrow> string option \<Rightarrow> exn + ('f, 'v) dataset" where
  "copernicusmarine_datastore w dataset user pass =
     (case setup_session w cas_url user pass of
        None \<Rightarrow> Inl RemoteError
      | Some cookies \<Rightarrow>
          (case cookies ''CASTGC'' of
             None \<Rightarrow> Inl (CredentialsError user pass (credentials_message user))
           | Some token \<Rightarrow>
               (case open_url w (dods_url ''my'' dataset) cookies of
                  Some d \<Rightarrow> Inr d
                | None \<Rightarrow>
                    (case open_url w (dods_url ''nrt'' dataset) cookies of
                       Some d \<Rightarrow> Inr d
                     | None \<Rightarrow> Inl RemoteError))))"

text \<open>
  Lines 85 to 92 of \<open>__init__\<close>: the fields \<open>dataset_id\<close>, \<open>username\<close> and
  \<open>password\<close>, each prompted for when it is empty.
\<close>

definition ask :: "string option \<Rightarrow> exn + string" where
  "ask reply = (case reply of None \<Rightarrow> Inl EOFError | Some s \<Rightarrow> Inr s)"

definition prompts ::
  "('f, 'v) world \<Rightarrow> string \<Rightarrow> string option \<Rightarrow> string option \<Rightarrow>
   exn + (string \<times> string option \<times> string option)" where
  "prompts w raw user pass =
     and_then (if rstrip (lstrip raw) = [] then ask (input_reply w)
               else Inr (rstrip (lstrip raw))) (\<lambda>self_dataset_id.
     and_then (if falsy user then and_then (ask (getpass_reply w ''Enter your username: ''))
                                   (\<lambda>s. Inr (Some s))
               else Inr user) (\<lambda>self_username.
     and_then (if falsy pass then and_then (ask (getpass_reply w ''Enter your password: ''))
                                   (\<lambda>s. Inr (Some s))
               else Inr pass) (\<lambda>self_password.
     Inr (self_dataset_id, self_username, self_password))))"

text \<open>
  \<open>__init__\<close>.  \<open>dataset_id.lstrip()\<close> on \<open>None\<close> is an AttributeError.  The data
  store is asked for with the arguments of the call, not with the fields just set.  The
  handle that is kept is the one the pass over the repeated timestamps gives.
\<close>

definition init :: "('f, 'v) world \<Rightarrow> string option \<Rightarrow> string option \<Rightarrow> string option \<Rightarrow> exn + ('f, 'v) opendap" where
  "init w dataset user pass =
     (case dataset of
        None \<Rightarrow> Inl AttributeError
      | Some raw \<Rightarrow>
          and_then (prompts w raw user pass) (\<lambda>(self_dataset_id, self_username, self_password).
          and_then (copernicusmarine_datastore w dataset user pass) (\<lambda>store.
          and_then (drop_repeated_times store) (\<lambda>(d, printed).
            Inr \<lparr>username = self_username, password = self_password,
                 dataset_id = self_dataset_id, ds = Some d, loaded = False,
                 stdout = connected_message user dataset # printed\<rparr>))))"

section \<open>Example data\<close>

text \<open>The fractions in the examples are dyadic, so that float arithmetic on them is exact.\<close>

definition example_var :: "int variable" where
  "example_var = \<lparr>vdims = [''time'', ''latitude''], vdata = (\<lambda>ix. 100 * int (ix ! 0) + int (ix ! 1))\<rparr>"

definition example_dataset :: "(real, int) dataset" where
  "example_dataset =
     \<lparr>time_coord = Some (Dim [20, 10, 20, 30]),
      num_coords = (\<lambda>n. None)(''latitude'' := Some (Dim [0, 1]), ''depth'' := Some (Dim [0, 10, 20])),
      data_vars = [(''uo'', example_var)]\<rparr>"

definition example_grid :: "(real, int) dataset" where
  "example_grid =
     \<lparr>time_coord = Some (Dim [1609459200000000000, 1609459201500000000, 1609545600000000000]),
      num_coords = (\<lambda>n. None)(''longitude'' := Some (Dim [-10, -9.5, -9]),
                                ''latitude'' := Some (Dim [40, 40.25, 41]),
                                ''depth'' := Some (Dim [0, 10, 20])),
      data_vars = [(''uo'', \<lparr>vdims = [''time'', ''depth'', ''latitude'', ''longitude''],
                            vdata = (\<lambda>ix. int (ix ! 0))\<rparr>)]\<rparr>"


definition no_cookie :: "string \<Rightarrow> string option" where
  "no_cookie = (\<lambda>k. None)"

definition example_world :: "(real, int) world" where
  "example_world =
     \<lparr>input_reply = Some ''abc'',
      getpass_reply = (\<lambda>prompt. Some ''secret''),
      setup_session = (\<lambda>url user pass.
         if pass = Some ''secret'' then Some (no_cookie(''CASTGC'' := Some ''TGT-1''))
         else Some no_cookie),
      open_url = (\<lambda>url cookies.
         if url = ''https://nrt.cmems-du.eu/thredds/dodsC/abc'' then Some example_grid
         else if url = ''https://my.cmems-du.eu/thredds/dodsC/repeated'' then Some example_dataset
         else None),
      load_ok = (\<lambda>d. case time_coord d of Some (Dim ts) \<Rightarrow> length ts \<le> 2 | _ \<Rightarrow> True),
      abspath = (\<lambda>p. p),
      write_ok = (\<lambda>path fmt d. True)\<rparr>"

definition offline_world :: "(real, int) world" where
  "offline_world = example_world\<lparr>setup_session := (\<lambda>url user pass. None)\<rparr>"

definition silent_world :: "(real, int) world" where
  "silent_world = example_world\<lparr>input_reply := None, getpass_reply := (\<lambda>prompt. None)\<rparr>"

definition unlimited_world :: "(real, int) world" where
  "unlimited_world = example_world\<lparr>load_ok := (\<lambda>d. True)\<rparr>"

definition example_session :: "(real, int) opendap" where
  "example_session =
     \<lparr>username = Some ''user'', password = Some ''secret'', dataset_id = ''abc'',
      ds = Some example_grid, loaded = False, stdout = []\<rparr>"



section \<open>Properties of the session\<close>

subsection \<open>Repeated timestamps\<close>











lemma isel_var_dims: "vdims (isel_var n idx v) = vdims v"
  by (simp add: isel_var_def)






subsection \<open>The outside buffer of a crop\<close>












subsection \<open>Selection in a crop\<close>

lemma nearest_outside_no_selectors:
  "nearest_outside method None None None depths d = Inr (None, None, None, depths)"
  by (simp add: nearest_outside_def expand_times_def expand_floats_def and_then_def)

lemma select_no_coordinates: "select_coordinates None None None None d = Inr d"
  by (simp add: select_coordinates_def sel_opt_def and_then_def)

lemma crop_selection_variables_only:
  "crop_selection (Some names) None None None None method (Some d) = Inr (ds_get names d)"
  by (simp add: crop_selection_def nearest_outside_no_selectors select_no_coordinates and_then_def)

text \<open>
  When every listed name is a data variable of the handle, the projection keeps the
  listed variables, in the order asked, and no other.
\<close>

lemma listed_vars_names:
  "\<forall>n\<in>set ns. map_of vs n \<noteq> None \<Longrightarrow>
   map fst (concat (map (\<lambda>n. case map_of vs n of None \<Rightarrow> [] | Some v \<Rightarrow> [(n, v)]) ns)) = ns"
  by (induction ns) auto

lemma variables_projected:
  assumes "\<forall>n\<in>set names. map_of (data_vars d) n \<noteq> None"
  shows "ds_get names d = Some (copy_listed names d) \<and>
         map fst (data_vars (copy_listed names d)) = first_occurrences names"
proof -
  have "list_all (has_name d) names"
    using assms by (simp add: list_all_iff has_name_def)
  moreover have "\<forall>n\<in>set (first_occurrences names). map_of (data_vars d) n \<noteq> None"
    using assms by (simp add: first_occurrences_def)
  ultimately show ?thesis
    by (simp add: ds_get_def copy_listed_def listed_vars_def listed_vars_names)
qed

text \<open>
  C4.  A name of the list that the handle does not have raises nothing: \<open>get\<close>
  answers \<open>None\<close>, the handle becomes \<open>None\<close>, and the \<open>load\<close> that follows
  fails inside the bare \<open>except\<close>, which prints that the request is too big.
\<close>

theorem missing_variable_not_reported:
  assumes "ds st = Some d" and "n \<in> set names" and "\<not> has_name d n"
  shows "crop (Some names) None None None None method w st =
           Inr (st\<lparr>ds := None, stdout := stdout st @ [too_big_message]\<rparr>)"
proof -
  have "\<not> list_all (has_name d) names"
    using assms(2,3) by (auto simp: list_all_iff)
  then have "ds_get names d = None"
    by (simp add: ds_get_def)
  then show ?thesis
    using assms(1) by (simp add: crop_def crop_selection_variables_only and_then_def try_load_def)
qed

theorem missing_variable_not_reported_witness:
  "crop (Some [''uo'', ''thetao'']) None None None None ''neareast_outside'' example_world example_session =
     Inr (example_session\<lparr>ds := None, stdout := [too_big_message]\<rparr>)"
proof -
  have "\<not> has_name example_grid ''thetao''"
    by (simp add: has_name_def example_grid_def)
  from missing_variable_not_reported[of example_session example_grid "''thetao''" "[''uo'', ''thetao'']", OF _ _ this]
  show ?thesis
    by (simp add: example_session_def)
qed

lemma sel_time_keeps_names: "sel_time s d = Inr d' \<Longrightarrow> num_coords d' = num_coords d"
  by (auto simp: sel_time_def and_then_def isel_time_def pick_time_def
      split: option.splits coord.splits selector.splits sum.splits)

lemma sel_num_keeps_names:
  "sel_num name s d = Inr d' \<Longrightarrow> name \<noteq> other \<Longrightarrow> num_coords d' other = num_coords d other"
  by (auto simp: sel_num_def and_then_def isel_num_def pick_num_def
      split: option.splits coord.splits selector.splits sum.splits)

lemma sel_num_missing: "num_coords d name = None \<Longrightarrow> sel_num name s d = Inl KeyError"
  by (simp add: sel_num_def)

lemma select_coordinates_depth:
  assumes "num_coords d ''detph'' = None"
  shows "\<exists>e. select_coordinates t x y (Some s) d = Inl e"
proof (cases "sel_opt sel_time t d")
  case (Inl e)
  then show ?thesis by (simp add: select_coordinates_def and_then_def)
next
  case (Inr d1)
  then have n1: "num_coords d1 ''detph'' = None"
    using assms sel_time_keeps_names[of _ d d1] by (cases t) (auto simp: sel_opt_def)
  show ?thesis
  proof (cases "sel_opt (sel_num ''longitude'') x d1")
    case (Inl e)
    with Inr show ?thesis by (simp add: select_coordinates_def and_then_def)
  next
    case d2: (Inr d2)
    then have n2: "num_coords d2 ''detph'' = None"
      using n1 sel_num_keeps_names[of "''longitude''" _ d1 d2 "''detph''"]
      by (cases x) (auto simp: sel_opt_def)
    show ?thesis
    proof (cases "sel_opt (sel_num ''latitude'') y d2")
      case (Inl e)
      with Inr d2 show ?thesis by (simp add: select_coordinates_def and_then_def)
    next
      case d3: (Inr d3)
      then have n3: "num_coords d3 ''detph'' = None"
        using n2 sel_num_keeps_names[of "''latitude''" _ d2 d3 "''detph''"]
        by (cases y) (auto simp: sel_opt_def)
      with Inr d2 d3 show ?thesis
        by (simp add: select_coordinates_def and_then_def sel_opt_def sel_num_missing)
    qed
  qed
qed

text \<open>
  C7.  The selections are made in the order time, longitude, latitude, depth and before
  the variables are taken, but the depth selection names the dimension \<open>detph\<close>.
  On a handle without a dimension of that name every call with a depth selector, range
  or single value, raises instead of narrowing the depth axis.
\<close>

theorem depth_selector_refused:
  assumes "ds st = Some d" and "num_coords d ''detph'' = None"
  shows "\<exists>e. crop variables timesel longitudes latitudes (Some s) method w st = Inl e"
proof (cases "nearest_outside method timesel longitudes latitudes (Some s) d")
  case (Inl e)
  with assms(1) show ?thesis
    by (simp add: crop_def crop_selection_def and_then_def)
next
  case (Inr r)
  obtain t x y z where r: "r = (t, x, y, z)"
    by (cases r) auto
  have z: "z = Some s"
    using Inr r by (auto simp: nearest_outside_def and_then_def split: if_splits sum.splits)
  obtain e where "select_coordinates t x y (Some s) d = Inl e"
    using select_coordinates_depth[OF assms(2)] by blast
  with assms(1) Inr r z show ?thesis
    by (simp add: crop_def crop_selection_def and_then_def)
qed

theorem depth_selector_refused_witness:
  "num_coords example_grid ''depth'' = Some (Dim [0, 10, 20]) \<and>
   crop None None None None (Some (Slice 0 10)) ''neareast_outside'' example_world example_session =
     Inl KeyError \<and>
   crop None None None None (Some (Point 10)) ''neareast_outside'' example_world example_session =
     Inl KeyError"
proof -
  have h1: "ds example_session = Some example_grid"
    by (simp add: example_session_def)
  have h2: "num_coords example_grid ''detph'' = None"
    by (simp add: example_grid_def)
  have "\<exists>e. crop None None None None (Some (Slice 0 10)) ''neareast_outside'' example_world example_session = Inl e"
    by (rule depth_selector_refused[OF h1 h2])
  moreover have "crop None None None None (Some s) ''neareast_outside'' example_world example_session = Inl KeyError" for s
    by (simp add: crop_def crop_selection_def h1 h2 nearest_outside_no_selectors and_then_def
        select_coordinates_def sel_opt_def sel_num_missing)
  moreover have "num_coords example_grid ''depth'' = Some (Dim [0, 10, 20])"
    by (simp add: example_grid_def)
  ultimately show ?thesis
    by simp
qed

text \<open>
  C10.  A crop without a variable list and without selectors returns, for any method
  and whether or not the load succeeds, with the handle it started from.
\<close>

theorem crop_nothing_is_identity:
  "\<exists>st'. crop None None None None None method w st = Inr st' \<and> ds st' = ds st \<and>
         username st' = username st \<and> password st' = password st \<and> dataset_id st' = dataset_id st"
proof (cases "ds st")
  case None
  then show ?thesis
    by (simp add: crop_def crop_selection_def and_then_def try_load_def is_slice_def)
next
  case (Some d)
  then show ?thesis
    by (simp add: crop_def crop_selection_def nearest_outside_no_selectors select_no_coordinates
        and_then_def try_load_def)
qed

theorem crop_nothing_is_identity_witness:
  "\<exists>st'. crop None None None None None ''neareast_outside'' example_world example_session = Inr st' \<and>
         ds st' = Some example_grid"
proof -
  obtain st' where
    "crop None None None None None ''neareast_outside'' example_world example_session = Inr st'"
    and "ds st' = ds example_session"
    using crop_nothing_is_identity[of "''neareast_outside''" example_world example_session]
    by blast
  then show ?thesis
    by (auto simp: example_session_def)
qed

subsection \<open>Export\<close>

lemma example_time_axis:
  "time_coord example_grid =
     Some (Dim [1609459200000000000, 1609459201500000000, 1609545600000000000])"
  by (simp add: example_grid_def)

lemma example_dates:
  "date_of 1609459200000000000 = 18628"
  "date_of 1609459201500000000 = 18628"
  "date_of 1609545600000000000 = 18629"
  by (simp_all add: date_of_def)

lemma example_groups:
  assumes "time_coord d = Some (Dim [1609459200000000000, 1609459201500000000, 1609545600000000000])"
  shows "groupby_date d = Inr [(18628, isel_time [0, 1] [1609459200000000000, 1609459201500000000, 1609545600000000000] d), (18629, isel_time [2] [1609459200000000000, 1609459201500000000, 1609545600000000000] d)]"
proof -
  have days: "np_unique [18628, 18628, 18629 :: int] = [18628, 18629]"
    by (simp add: np_unique_def)
  have first: "positions (\<lambda>t. date_of t = 18628) [1609459200000000000, 1609459201500000000, 1609545600000000000] = [0, 1]"
    by (simp add: positions_def date_of_def upt_rec)
  have second: "positions (\<lambda>t. date_of t = 18629) [1609459200000000000, 1609459201500000000, 1609545600000000000] = [2]"
    by (simp add: positions_def date_of_def upt_rec)
  show ?thesis
    by (simp add: groupby_date_def assms example_dates days first second)
qed

lemma example_str_date: "str_date 18628 = ''2021-01-01''" "str_date 18629 = ''2021-01-02''"
  by code_simp+

lemma example_daily_paths:
  "daily_paths ''/data/my-run/out.nc'' [18628, 18629] =
     [''/data/myrun/out_20210101.nc'', ''/data/myrun/out_20210102.nc'']"
proof -
  have dir: "dirname ''/data/my-run/out.nc'' = ''/data/my-run''"
    by (simp add: dirname_def slash_def rstrip_char_def)
  have base: "basename ''/data/my-run/out.nc'' = ''out.nc''"
    by (simp add: basename_def slash_def)
  have ext: "splitext ''out.nc'' = (''out'', ''.nc'')"
    by (simp add: splitext_def basename_def slash_def dot_def)
  show ?thesis
    by (simp add: daily_paths_def Let_def dir base ext example_str_date remove_dashes_def)
qed



lemma example_daily_run:
  assumes "ds st = Some d" and "time_coord d = Some (Dim [1609459200000000000, 1609459201500000000, 1609545600000000000])"
  shows "to_daily_netcdf ''/data/my-run/out.nc'' None example_world st =
     Inr ([''/data/myrun/out_20210101.nc'', ''/data/myrun/out_20210102.nc''],
          [(''/data/myrun/out_20210101.nc'', isel_time [0, 1] [1609459200000000000, 1609459201500000000, 1609545600000000000] d),
           (''/data/myrun/out_20210102.nc'', isel_time [2] [1609459200000000000, 1609459201500000000, 1609545600000000000] d)])"
proof -
  have ok: "\<And>p idx. length idx \<le> 2 \<Longrightarrow>
      can_write example_world (loaded st) p None (isel_time idx [1609459200000000000, 1609459201500000000, 1609545600000000000] d)"
    by (simp add: can_write_def example_world_def isel_time_def)
  show ?thesis
    by (simp add: to_daily_netcdf_def assms(1) example_groups[OF assms(2)] and_then_def
        example_daily_paths save_mfdataset_def ok)
qed

lemma set_dirname: "x \<in> set (dirname p) \<Longrightarrow> x \<in> set p"
  by (auto simp: dirname_def rstrip_char_def Let_def dest!: set_dropWhileD split: if_splits)

lemma daily_paths_no_dash: "p \<in> set (daily_paths output_path dates) \<Longrightarrow> CHR ''-'' \<notin> set p"
  by (auto simp: daily_paths_def remove_dashes_def Let_def)

text \<open>
  The grouping gives one group for each distinct date, and the time axis of a group is
  made of the samples of its date.
\<close>

lemma nth_positions: "map (\<lambda>i. xs ! i) (positions P xs) = filter P xs"
proof -
  have "filter P (map (\<lambda>i. xs ! i) [0..<length xs]) =
      map (\<lambda>i. xs ! i) (filter (P \<circ> (\<lambda>i. xs ! i)) [0..<length xs])"
    by (rule filter_map)
  then show ?thesis
    by (simp add: positions_def map_nth o_def)
qed

lemma groupby_date_groups:
  assumes "time_coord d = Some (Dim ts)"
  shows "\<exists>groups. groupby_date d = Inr groups \<and>
           map fst groups = np_unique (map date_of ts) \<and>
           length groups = card (date_of ` set ts) \<and>
           (\<forall>gp\<in>set groups. time_coord (snd gp) = Some (Dim (filter (\<lambda>t. date_of t = fst gp) ts)))"
proof -
  have "length (np_unique (map date_of ts)) = card (date_of ` set ts)"
    by (simp add: np_unique_def length_remdups_card_conv)
  then show ?thesis
    using assms by (auto simp: groupby_date_def o_def isel_time_def nth_positions)
qed

text \<open>
  C3.  \<open>replace("-", "")\<close> is applied to the whole path, not to the date: when the
  directory of the requested path has a dash in its name, no daily file is written in
  that directory.
\<close>

theorem daily_files_leave_directory:
  assumes "CHR ''-'' \<in> set (dirname output_path)"
    and "to_daily_netcdf output_path netcdf_format w st = Inr (paths, written)"
    and "p \<in> set paths"
  shows "dirname p \<noteq> dirname output_path"
proof -
  have "paths = daily_paths output_path (map fst groups)" if "groupby_date d = Inr groups" "ds st = Some d" for d groups
    using assms(2) that
    by (auto simp: to_daily_netcdf_def and_then_def Let_def split: if_splits sum.splits)
  moreover obtain d groups where "ds st = Some d" "groupby_date d = Inr groups"
    using assms(2)
    by (auto simp: to_daily_netcdf_def and_then_def split: option.splits sum.splits)
  ultimately have "p \<in> set (daily_paths output_path (map fst groups))"
    using assms(3) by simp
  then have "CHR ''-'' \<notin> set p"
    by (rule daily_paths_no_dash)
  then have "CHR ''-'' \<notin> set (dirname p)"
    using set_dirname[of "CHR ''-''" p] by auto
  with assms(1) show ?thesis
    by auto
qed

theorem daily_files_leave_directory_witness:
  "to_daily_netcdf ''/data/my-run/out.nc'' None example_world example_session =
     Inr ([''/data/myrun/out_20210101.nc'', ''/data/myrun/out_20210102.nc''],
          [(''/data/myrun/out_20210101.nc'', isel_time [0, 1]
             [1609459200000000000, 1609459201500000000, 1609545600000000000] example_grid),
           (''/data/myrun/out_20210102.nc'', isel_time [2]
             [1609459200000000000, 1609459201500000000, 1609545600000000000] example_grid)]) \<and>
   dirname ''/data/my-run/out.nc'' = ''/data/my-run'' \<and>
   dirname ''/data/myrun/out_20210101.nc'' \<noteq> dirname ''/data/my-run/out.nc''"
proof -
  have handle: "ds example_session = Some example_grid"
    by (simp add: example_session_def)
  note run = example_daily_run[OF handle example_time_axis]
  have dir: "dirname ''/data/my-run/out.nc'' = ''/data/my-run''"
    by (simp add: dirname_def slash_def rstrip_char_def)
  then have dash: "CHR ''-'' \<in> set (dirname ''/data/my-run/out.nc'')"
    by simp
  have "dirname ''/data/myrun/out_20210101.nc'' \<noteq> dirname ''/data/my-run/out.nc''"
    by (rule daily_files_leave_directory[OF dash run]) simp
  with dir show ?thesis
    using run by simp
qed

text \<open>
  C5.  Whenever \<open>to_netcdf\<close> returns, it returns \<open>None\<close>: after a single file as
  after the daily files, so the value returned does not tell the two apart.
\<close>

theorem to_netcdf_returns_none:
  "to_netcdf output_path netcdf_format w st = Inr (r, fs) \<Longrightarrow> r = ReturnsNone"
proof -
  assume run: "to_netcdf output_path netcdf_format w st = Inr (r, fs)"
  show "r = ReturnsNone"
  proof (cases "single_write (abspath w output_path) netcdf_format w st")
    case (Some written)
    with run show ?thesis
      by (simp add: to_netcdf_def)
  next
    case None
    with run show ?thesis
      by (cases "to_daily_netcdf (abspath w output_path) netcdf_format w st")
         (auto simp: to_netcdf_def and_then_def)
  qed
qed

theorem to_netcdf_returns_none_witness:
  "to_netcdf ''/data/my-run/out.nc'' None example_world example_session =
     Inr (ReturnsNone,
          [(''/data/myrun/out_20210101.nc'', isel_time [0, 1]
             [1609459200000000000, 1609459201500000000, 1609545600000000000] example_grid),
           (''/data/myrun/out_20210102.nc'', isel_time [2]
             [1609459200000000000, 1609459201500000000, 1609545600000000000] example_grid)]) \<and>
   to_netcdf ''/data/my-run/out.nc'' None unlimited_world example_session =
     Inr (ReturnsNone, [(''/data/my-run/out.nc'', example_grid)])"
proof -
  have big: "\<not> can_write example_world (loaded example_session) ''/data/my-run/out.nc'' None example_grid"
    by (simp add: can_write_def example_world_def example_grid_def example_session_def)
  have same: "abspath example_world ''/data/my-run/out.nc'' = ''/data/my-run/out.nc''"
    by (simp add: example_world_def)
  have handle: "ds example_session = Some example_grid"
    by (simp add: example_session_def)
  have split: "to_netcdf ''/data/my-run/out.nc'' None example_world example_session =
     Inr (ReturnsNone,
          [(''/data/myrun/out_20210101.nc'', isel_time [0, 1]
             [1609459200000000000, 1609459201500000000, 1609545600000000000] example_grid),
           (''/data/myrun/out_20210102.nc'', isel_time [2]
             [1609459200000000000, 1609459201500000000, 1609545600000000000] example_grid)])"
    using big handle
    by (simp add: to_netcdf_def same single_write_def
        example_daily_run[OF handle example_time_axis] and_then_def)
  have single: "to_netcdf ''/data/my-run/out.nc'' None unlimited_world example_session =
     Inr (ReturnsNone, [(''/data/my-run/out.nc'', example_grid)])"
    by (simp add: to_netcdf_def single_write_def can_write_def example_session_def
        unlimited_world_def example_world_def)
  show ?thesis
    using split single to_netcdf_returns_none[OF split] to_netcdf_returns_none[OF single]
    by simp
qed

subsection \<open>Loading, in a crop and at export\<close>




subsection \<open>Session establishment\<close>

lemma datastore_credentials:
  "copernicusmarine_datastore w dataset user pass = Inl (CredentialsError u p m) \<longleftrightarrow>
     (\<exists>cookies. setup_session w cas_url user pass = Some cookies \<and> cookies ''CASTGC'' = None) \<and>
     u = user \<and> p = pass \<and> m = credentials_message user"
  by (auto simp: copernicusmarine_datastore_def split: option.splits)

lemma drop_repeated_times_errors:
  "drop_repeated_times d = Inl e \<Longrightarrow> e = AttributeError \<or> e = TypeError"
  by (auto simp: drop_repeated_times_def split: option.splits coord.splits if_splits)

lemma ask_errors: "ask reply = Inl e \<Longrightarrow> e = EOFError"
  by (cases reply) (simp_all add: ask_def)

lemma prompts_errors: "prompts w raw user pass = Inl e \<Longrightarrow> e = EOFError"
  unfolding prompts_def and_then_def
  by (auto split: if_splits sum.splits dest: ask_errors)

lemma init_credentials:
  "init w (Some raw) user pass = Inl (CredentialsError u p m) \<longleftrightarrow>
     (\<exists>answers. prompts w raw user pass = Inr answers) \<and>
     copernicusmarine_datastore w (Some raw) user pass = Inl (CredentialsError u p m)"
proof (cases "prompts w raw user pass")
  case (Inl e)
  with prompts_errors[OF Inl] show ?thesis
    by (simp add: init_def and_then_def)
next
  case answers: (Inr answers)
  show ?thesis
  proof (cases "copernicusmarine_datastore w (Some raw) user pass")
    case (Inl e)
    with answers show ?thesis
      by (cases answers) (simp add: init_def and_then_def)
  next
    case (Inr store)
    show ?thesis
    proof (cases "drop_repeated_times store")
      case (Inl e)
      with answers Inr drop_repeated_times_errors[OF Inl] show ?thesis
        by (cases answers) (auto simp: init_def and_then_def)
    next
      case r: (Inr r)
      with answers Inr show ?thesis
        by (cases answers; cases r) (simp add: init_def and_then_def)
    qed
  qed
qed

text \<open>
  C8, as stated, fails where the login gives no token and yet no CredentialsError is
  raised: with the identifier \<open>None\<close> the call fails on \<open>lstrip\<close> before the login,
  a prompt that gets no answer raises before the login, and a login call that itself
  raises is outside the \<open>try\<close>.
\<close>

theorem credentials_error_not_raised:
  "setup_session example_world cas_url (Some ''user'') (Some ''wrong'') = Some no_cookie \<and>
   no_cookie ''CASTGC'' = None \<and>
   init example_world None (Some ''user'') (Some ''wrong'') = Inl AttributeError \<and>
   setup_session silent_world cas_url None (Some ''wrong'') = Some no_cookie \<and>
   init silent_world (Some ''abc'') None (Some ''wrong'') = Inl EOFError \<and>
   setup_session offline_world cas_url (Some ''user'') (Some ''wrong'') = None \<and>
   init offline_world (Some ''abc'') (Some ''user'') (Some ''wrong'') = Inl RemoteError"
proof -
  have login: "setup_session example_world cas_url (Some ''user'') (Some ''wrong'') = Some no_cookie"
    by (simp add: example_world_def)
  have empty: "no_cookie ''CASTGC'' = None"
    by (simp add: no_cookie_def)
  have absent: "init example_world None (Some ''user'') (Some ''wrong'') = Inl AttributeError"
    by (simp add: init_def)
  have login': "setup_session silent_world cas_url None (Some ''wrong'') = Some no_cookie"
    by (simp add: silent_world_def example_world_def)
  have "prompts silent_world ''abc'' None (Some ''wrong'') = Inl EOFError"
    by (simp add: prompts_def rstrip_def lstrip_def is_space_def falsy_def ask_def and_then_def
        silent_world_def)
  then have silent: "init silent_world (Some ''abc'') None (Some ''wrong'') = Inl EOFError"
    by (simp add: init_def and_then_def)
  have down: "setup_session offline_world cas_url (Some ''user'') (Some ''wrong'') = None"
    by (simp add: offline_world_def)
  have "prompts offline_world ''abc'' (Some ''user'') (Some ''wrong'') =
      Inr (''abc'', Some ''user'', Some ''wrong'')"
    by (simp add: prompts_def rstrip_def lstrip_def is_space_def falsy_def and_then_def)
  then have offline: "init offline_world (Some ''abc'') (Some ''user'') (Some ''wrong'') = Inl RemoteError"
    by (simp add: init_def and_then_def copernicusmarine_datastore_def down)
  show ?thesis
    using login empty absent login' silent down offline by blast
qed

text \<open>
  C8, amended.  With a dataset identifier given, \<open>__init__\<close> fails with a
  CredentialsError exactly when every prompt it makes is answered and the login returns
  a session without the token \<open>CASTGC\<close>; the error then carries the username and the
  password of the call and the message made from the username.
\<close>

theorem credentials_error_iff_no_token:
  "(init w (Some raw) user pass = Inl (CredentialsError u p m)) =
     ((\<exists>answers. prompts w raw user pass = Inr answers) \<and>
      (\<exists>cookies. setup_session w cas_url user pass = Some cookies \<and> cookies ''CASTGC'' = None) \<and>
      u = user \<and> p = pass \<and> m = credentials_message user)"
  by (simp only: init_credentials datastore_credentials)

lemma example_prompts:
  "prompts example_world ''abc'' (Some ''user'') pass =
     (if falsy pass then Inr (''abc'', Some ''user'', Some ''secret'') else Inr (''abc'', Some ''user'', pass))"
  by (simp add: prompts_def rstrip_def lstrip_def is_space_def falsy_def ask_def and_then_def
      example_world_def)

theorem credentials_error_iff_no_token_witness:
  "init example_world (Some ''abc'') (Some ''user'') (Some ''wrong'') =
     Inl (CredentialsError (Some ''user'') (Some ''wrong'') (credentials_message (Some ''user''))) \<and>
   init example_world (Some ''abc'') (Some ''user'') (Some ''secret'') \<noteq>
     Inl (CredentialsError (Some ''user'') (Some ''secret'') (credentials_message (Some ''user'')))"
  using credentials_error_iff_no_token[of example_world "''abc''" "Some ''user''" "Some ''wrong''"
      "Some ''user''" "Some ''wrong''" "credentials_message (Some ''user'')"]
    credentials_error_iff_no_token[of example_world "''abc''" "Some ''user''" "Some ''secret''"
      "Some ''user''" "Some ''secret''" "credentials_message (Some ''user'')"]
  by (simp add: example_prompts falsy_def) (simp add: example_world_def no_cookie_def)

lemma example_grid_unrepeated: "drop_repeated_times example_grid = Inr (example_grid, [])"
proof -
  have "np_unique_datetime [1609459200000000000, 1609459201500000000, 1609545600000000000] =
      [1609459200000000000, 1609459201500000000, 1609545600000000000]"
    by (simp add: np_unique_datetime_def NaT_def)
  moreover have "time_coord example_grid =
     Some (Dim [1609459200000000000, 1609459201500000000, 1609545600000000000])"
    by (simp add: example_grid_def)
  ultimately show ?thesis
    by (simp add: drop_repeated_times_def)
qed

lemma example_login:
  "setup_session example_world cas_url user (Some ''secret'') =
     Some (no_cookie(''CASTGC'' := Some ''TGT-1''))"
  by (simp add: example_world_def)

lemma example_store:
  "copernicusmarine_datastore example_world (Some ''abc'') user (Some ''secret'') = Inr example_grid"
  "copernicusmarine_datastore example_world (Some '' abc '') user (Some ''secret'') = Inl RemoteError"
  "copernicusmarine_datastore example_world (Some []) user (Some ''secret'') = Inl RemoteError"
  by (simp_all add: copernicusmarine_datastore_def example_login)
     (simp_all add: example_world_def dods_url_def py_str_def)

text \<open>
  C9.  The identifier that is resolved is the argument of the call as given, not the
  trimmed or prompted one kept in \<open>self.dataset_id\<close>: when neither catalog path has
  the untrimmed identifier the call fails, whatever the trimmed one would resolve to.
  An absent identifier fails on \<open>lstrip\<close> before anything is prompted.
\<close>

theorem untrimmed_identifier_resolved:
  assumes "\<And>cookies. open_url w (dods_url ''my'' (Some raw)) cookies = None"
    and "\<And>cookies. open_url w (dods_url ''nrt'' (Some raw)) cookies = None"
  shows "(\<exists>e. init w (Some raw) user pass = Inl e) \<and> init w None user pass = Inl AttributeError"
proof -
  have "\<exists>e. copernicusmarine_datastore w (Some raw) user pass = Inl e"
    using assms by (auto simp: copernicusmarine_datastore_def split: option.splits)
  then have "\<exists>e. init w (Some raw) user pass = Inl e"
    by (cases "prompts w raw user pass") (auto simp: init_def and_then_def)
  then show ?thesis
    by (simp add: init_def)
qed

theorem untrimmed_identifier_resolved_witness:
  "rstrip (lstrip '' abc '') = ''abc'' \<and>
   init example_world (Some ''abc'') (Some ''user'') (Some ''secret'') =
     Inr \<lparr>username = Some ''user'', password = Some ''secret'', dataset_id = ''abc'',
          ds = Some example_grid, loaded = False,
          stdout = [connected_message (Some ''user'') (Some ''abc'')]\<rparr> \<and>
   init example_world (Some '' abc '') (Some ''user'') (Some ''secret'') = Inl RemoteError \<and>
   init example_world (Some []) (Some ''user'') (Some ''secret'') = Inl RemoteError \<and>
   init example_world None (Some ''user'') (Some ''secret'') = Inl AttributeError"
proof -
  have trim: "rstrip (lstrip '' abc '') = ''abc''"
    by (simp add: rstrip_def lstrip_def is_space_def)
  have asked: "prompts example_world raw (Some ''user'') (Some ''secret'') =
      Inr (if rstrip (lstrip raw) = [] then ''abc'' else rstrip (lstrip raw),
           Some ''user'', Some ''secret'')" for raw
    by (simp add: prompts_def falsy_def ask_def and_then_def example_world_def)
  have given: "init example_world (Some ''abc'') (Some ''user'') (Some ''secret'') =
     Inr \<lparr>username = Some ''user'', password = Some ''secret'', dataset_id = ''abc'',
          ds = Some example_grid, loaded = False,
          stdout = [connected_message (Some ''user'') (Some ''abc'')]\<rparr>"
    by (simp add: init_def asked example_store and_then_def example_grid_unrepeated)
       (simp add: rstrip_def lstrip_def is_space_def)
  have padded: "init example_world (Some '' abc '') (Some ''user'') (Some ''secret'') = Inl RemoteError"
    by (simp add: init_def asked example_store and_then_def)
  have empty: "init example_world (Some []) (Some ''user'') (Some ''secret'') = Inl RemoteError"
    by (simp add: init_def asked example_store and_then_def)
  have absent: "init example_world None (Some ''user'') (Some ''secret'') = Inl AttributeError"
    by (simp add: init_def)
  have my: "open_url example_world (dods_url ''my'' (Some '' abc '')) cookies = None" for cookies
    by (simp add: example_world_def dods_url_def py_str_def)
  have nrt: "open_url example_world (dods_url ''nrt'' (Some '' abc '')) cookies = None" for cookies
    by (simp add: example_world_def dods_url_def py_str_def)
  show ?thesis
    using trim given padded empty absent
      untrimmed_identifier_resolved[of example_world "'' abc ''" "Some ''user''" "Some ''secret''", OF my nrt]
    by simp
qed

end
